theory Spec2Isabelle
  imports Main "HOL-Library.Word"
begin

unbundle bit_operations_syntax

section \<open>Data model of the FUSE adapter (package fs) and its collaborators\<close>

text \<open>
  The development embeds the filesystem adapter of koneksi-drive: the node operations
  \<open>Lookup\<close>, \<open>Readdir\<close>, \<open>Getattr\<close>, \<open>Open\<close>, \<open>Create\<close>, \<open>Mkdir\<close>, \<open>Unlink\<close>, \<open>Rmdir\<close>,
  the attribute translation \<open>setAttr\<close>/\<open>stableAttr\<close> and the file-handle operations
  \<open>Read\<close> and \<open>Write\<close>.

  Go pointers are addresses into explicit heaps (one for \<open>koneksiNode\<close>, one for
  \<open>api.FileInfo\<close>), because several nodes can hold the same \<open>*api.FileInfo\<close>.
  Go's \<open>int64\<close> is a 64-bit word read through \<open>sint\<close>; \<open>uint32\<close>/\<open>uint64\<close> are words
  read through \<open>unat\<close>. A Go \<open>(value, errno)\<close> result is a sum with the errno on the left.
\<close>

type_synonym byte = "8 word"
type_synonym int64 = "64 word"
type_synonym uint64 = "64 word"
type_synonym uint32 = "32 word"

text \<open>
  A cleaned, rooted, slash-separated path is kept as the list of its components: \<open>"/"\<close> is
  \<open>[]\<close> and \<open>"/docs/a.txt"\<close> is \<open>[''docs'', ''a.txt'']\<close>. The kernel hands the adapter
  single, non-empty components without a slash, and on those \<open>filepath.Join(p, name)\<close>
  of a clean \<open>p\<close> appends the component.
\<close>

type_synonym path = "string list"

definition filepath_Join :: "path \<Rightarrow> string \<Rightarrow> path" where
  "filepath_Join p name = p @ [name]"

text \<open>\<open>time.Time\<close>, as far as the adapter reads it: \<open>Unix()\<close> gives the whole seconds.\<close>

record Time =
  unix_sec :: int64
  nsec :: uint32

definition Unix :: "Time \<Rightarrow> int64" where
  "Unix t = unix_sec t"

text \<open>\<open>config.MountConfig\<close> and the part of \<open>config.Config\<close> the adapter reads.\<close>

record MountConfig =
  ReadOnly :: bool
  AllowOther :: bool
  UID :: uint32
  GID :: uint32
  Umask :: uint32

record Config =
  Mount :: MountConfig

text \<open>\<open>api.FileInfo\<close>.\<close>

record FileInfo =
  Name :: string
  Size :: int64
  IsDir :: bool
  Modified :: Time
  Path :: path

text \<open>The fields of \<open>fuse.Attr\<close> that time and ownership translation can touch.\<close>

record Attr =
  attr_Size :: uint64
  attr_Atime :: uint64
  attr_Mtime :: uint64
  attr_Ctime :: uint64
  attr_Atimensec :: uint32
  attr_Mtimensec :: uint32
  attr_Ctimensec :: uint32
  attr_Mode :: uint32
  attr_Uid :: uint32
  attr_Gid :: uint32

record DirEntry =
  entry_Name :: string
  entry_Mode :: uint32

text \<open>
  \<open>koneksiNode\<close>: \<open>info\<close> is a \<open>*api.FileInfo\<close> (an address of the FileInfo heap),
  \<open>children\<close> maps a name to a \<open>*koneksiNode\<close> (an address of the node heap). The
  \<open>client\<close> and \<open>cfg\<close> pointers are the same for every node of a mount and live in the state.
\<close>

record koneksiNode =
  path :: path
  info :: nat
  children :: "string \<rightharpoonup> nat"

record koneksiFileHandle =
  node :: nat
  flags :: uint32

text \<open>
  What \<open>NewInode(ctx, child, stableAttr)\<close> together with the filled \<open>out.Attr\<close> hands back
  to the kernel: the node, its stable mode and the attributes.
\<close>

record EntryOut =
  inode :: nat
  stable_Mode :: uint32
  out_Attr :: Attr

datatype Errno = ENOENT | EIO | ENOTDIR | EISDIR | EROFS

definition S_IFDIR :: uint32 where "S_IFDIR = 0x4000"
definition S_IFREG :: uint32 where "S_IFREG = 0x8000"
definition O_WRONLY :: uint32 where "O_WRONLY = 1"
definition O_RDWR :: uint32 where "O_RDWR = 2"
definition FOPEN_DIRECT_IO :: uint32 where "FOPEN_DIRECT_IO = 1"

section \<open>The remote store behind \<open>api.Client\<close>\<close>

text \<open>
  Modelled from the spec: the remote object store is an external service (sections 1 and 6:
  \<open>List\<close>, \<open>Read\<close>, \<open>WriteWhole\<close>, \<open>Delete\<close>, \<open>MakeDirectory\<close>, each succeeding or failing).
  It is a table from paths to objects. Every call of \<open>api.Client\<close> takes its outcome from
  \<open>plan\<close>, the outcomes the transport will deliver next (an exhausted plan means
  success), and is recorded with that outcome in \<open>calls\<close>: \<open>Fail\<close> is a transport or status failure, which leaves
  the table as it was; \<open>Cut k\<close> is a response whose body breaks after \<open>k\<close> bytes.
  Token refresh inside \<open>doRequest\<close> is part of the transport and folded into the outcome.
\<close>

record robject =
  o_dir :: bool
  o_data :: "byte list"
  o_mtime :: Time

datatype outcome = Succeed | Fail | Cut nat

datatype rcall =
  ListCall path
  | ReadCall path
  | WriteCall path "byte list"
  | DeleteCall path
  | MkdirCall path

record remote =
  objects :: "(path \<times> robject) list"
  plan :: "outcome list"
  calls :: "(rcall \<times> outcome) list"

text \<open>A response body: the bytes it delivers, and whether it ends in a transport error
  instead of end-of-stream.\<close>

record stream =
  bytes :: "byte list"
  broken :: bool

definition issue :: "rcall \<Rightarrow> remote \<Rightarrow> outcome \<times> remote" where
  "issue c r =
     (case plan r of
        [] \<Rightarrow> (Succeed, r\<lparr>calls := calls r @ [(c, Succeed)]\<rparr>)
      | x # xs \<Rightarrow> (x, r\<lparr>plan := xs, calls := calls r @ [(c, x)]\<rparr>))"

fun put_object :: "path \<Rightarrow> robject \<Rightarrow> (path \<times> robject) list \<Rightarrow> (path \<times> robject) list" where
  "put_object p ob [] = [(p, ob)]"
| "put_object p ob ((q, x) # rest) =
     (if q = p then (p, ob) # rest else (q, x) # put_object p ob rest)"

definition entry_of :: "path \<times> robject \<Rightarrow> FileInfo" where
  "entry_of e =
     \<lparr>Name = last (fst e), Size = of_nat (length (o_data (snd e))), IsDir = o_dir (snd e),
      Modified = o_mtime (snd e), Path = fst e\<rparr>"

definition listing :: "path \<Rightarrow> (path \<times> robject) list \<Rightarrow> FileInfo list" where
  "listing d obs = map entry_of (filter (\<lambda>e. fst e \<noteq> [] \<and> butlast (fst e) = d) obs)"

definition client_List :: "path \<Rightarrow> remote \<Rightarrow> (unit + FileInfo list) \<times> remote" where
  "client_List dirPath r =
     (case issue (ListCall dirPath) r of
        (Succeed, r1) \<Rightarrow> (Inr (listing dirPath (objects r1)), r1)
      | (_, r1) \<Rightarrow> (Inl (), r1))"

definition client_Read :: "path \<Rightarrow> remote \<Rightarrow> (unit + stream) \<times> remote" where
  "client_Read filePath r =
     (case issue (ReadCall filePath) r of
        (Fail, r1) \<Rightarrow> (Inl (), r1)
      | (oc, r1) \<Rightarrow>
          (case map_of (objects r1) filePath of
             None \<Rightarrow> (Inl (), r1)
           | Some ob \<Rightarrow>
               if o_dir ob then (Inl (), r1)
               else (case oc of
                       Cut k \<Rightarrow> (Inr \<lparr>bytes = take k (o_data ob), broken = True\<rparr>, r1)
                     | _ \<Rightarrow> (Inr \<lparr>bytes = o_data ob, broken = False\<rparr>, r1))))"

definition client_Write :: "Time \<Rightarrow> path \<Rightarrow> byte list \<Rightarrow> remote \<Rightarrow> (unit + unit) \<times> remote" where
  "client_Write t filePath data r =
     (case issue (WriteCall filePath data) r of
        (Succeed, r1) \<Rightarrow>
          (Inr (),
           r1\<lparr>objects := put_object filePath \<lparr>o_dir = False, o_data = data, o_mtime = t\<rparr>
                             (objects r1)\<rparr>)
      | (_, r1) \<Rightarrow> (Inl (), r1))"

definition client_Delete :: "path \<Rightarrow> remote \<Rightarrow> (unit + unit) \<times> remote" where
  "client_Delete filePath r =
     (case issue (DeleteCall filePath) r of
        (Succeed, r1) \<Rightarrow>
          (Inr (),
           r1\<lparr>objects := filter (\<lambda>e. take (length filePath) (fst e) \<noteq> filePath) (objects r1)\<rparr>)
      | (_, r1) \<Rightarrow> (Inl (), r1))"

definition client_Mkdir :: "Time \<Rightarrow> path \<Rightarrow> remote \<Rightarrow> (unit + unit) \<times> remote" where
  "client_Mkdir t dirPath r =
     (case issue (MkdirCall dirPath) r of
        (Succeed, r1) \<Rightarrow>
          (Inr (),
           r1\<lparr>objects := put_object dirPath \<lparr>o_dir = True, o_data = [], o_mtime = t\<rparr>
                             (objects r1)\<rparr>)
      | (_, r1) \<Rightarrow> (Inl (), r1))"

section \<open>\<open>io.CopyN\<close> and \<open>io.ReadFull\<close>\<close>

datatype ioerr = EOF | ErrUnexpectedEOF | ErrOther

text \<open>
  \<open>io.CopyN(dst, src, n)\<close>: the bytes copied, the error, and what is left of \<open>src\<close>. The
  error is nil when \<open>n\<close> bytes were copied, \<open>io.EOF\<close> when the source ended early, the
  source's own error when it broke. \<open>dst_err\<close> says that writing to \<open>dst\<close> fails.
\<close>

definition io_CopyN :: "bool \<Rightarrow> stream \<Rightarrow> nat \<Rightarrow> byte list \<times> ioerr option \<times> stream" where
  "io_CopyN dst_err src n =
     (if dst_err \<and> n \<noteq> 0 \<and> bytes src \<noteq> [] then ([], Some ErrOther, src)
      else if n \<le> length (bytes src)
      then (take n (bytes src), None, src\<lparr>bytes := drop n (bytes src)\<rparr>)
      else (bytes src, Some (if broken src then ErrOther else EOF), src\<lparr>bytes := []\<rparr>))"

text \<open>
  \<open>io.ReadFull(r, buf)\<close> with \<open>len(buf) = n\<close>: nil when \<open>n\<close> bytes were read, \<open>io.EOF\<close> when
  none were, \<open>io.ErrUnexpectedEOF\<close> when the stream ended after some, the stream's own
  error when it broke.
\<close>

definition io_ReadFull :: "stream \<Rightarrow> nat \<Rightarrow> byte list \<times> ioerr option" where
  "io_ReadFull r n =
     (if n \<le> length (bytes r) then (take n (bytes r), None)
      else (bytes r,
            Some (if broken r then ErrOther
                  else if bytes r = [] then EOF else ErrUnexpectedEOF)))"

section \<open>The state of a mount\<close>

text \<open>
  \<open>osenv\<close> is the local scratch-file environment of \<open>Write\<close>: whether \<open>os.CreateTemp\<close>, a
  write to the scratch file, or the seek back to its start fails.
  \<open>loopvar_per_iteration\<close> is the Go language version of the module: from Go 1.22 on a
  \<open>for ... range\<close> loop has a fresh variable in every iteration; before, the loop has one
  variable, and \<open>&file\<close> is the same address in every iteration. The repository builds
  with Go 1.21 (\<open>GO_VERSION: '1.21'\<close> in its workflow), that is \<open>False\<close>.
\<close>

record osenv =
  create_temp_err :: bool
  temp_write_err :: bool
  temp_seek_err :: bool

record state =
  cfg :: Config
  nodes :: "nat \<Rightarrow> koneksiNode"
  infos :: "nat \<Rightarrow> FileInfo"
  next_node :: nat
  next_info :: nat
  remote :: remote
  now :: Time
  os :: osenv
  loopvar_per_iteration :: bool

definition the_info :: "state \<Rightarrow> nat \<Rightarrow> FileInfo" where
  "the_info s n = infos s (info (nodes s n))"

definition add_child :: "nat \<Rightarrow> string \<Rightarrow> nat \<Rightarrow> state \<Rightarrow> state" where
  "add_child n name c s =
     s\<lparr>nodes := (nodes s)(n := (nodes s n)\<lparr>children := (children (nodes s n))(name \<mapsto> c)\<rparr>)\<rparr>"

definition new_node :: "path \<Rightarrow> nat \<Rightarrow> state \<Rightarrow> nat \<times> state" where
  "new_node p i s =
     (next_node s,
      s\<lparr>nodes := (nodes s)(next_node s := \<lparr>path = p, info = i, children = Map.empty\<rparr>),
        next_node := next_node s + 1\<rparr>)"

definition new_info :: "FileInfo \<Rightarrow> state \<Rightarrow> nat \<times> state" where
  "new_info f s =
     (next_info s, s\<lparr>infos := (infos s)(next_info s := f), next_info := next_info s + 1\<rparr>)"

section \<open>Attribute translation\<close>

text \<open>The permission constants of \<open>setAttr\<close>, octal 0755 and 0644 in the source.\<close>

definition perm_0755 :: uint32 where "perm_0755 = 0x1ED"
definition perm_0644 :: uint32 where "perm_0644 = 0x1A4"

definition setAttr :: "Config \<Rightarrow> Attr \<Rightarrow> FileInfo \<Rightarrow> Attr" where
  "setAttr c attr i =
     (let a1 = attr\<lparr>attr_Size := Size i\<rparr>;
          a2 = a1\<lparr>attr_Mtime := Unix (Modified i)\<rparr>;
          a3 = a2\<lparr>attr_Ctime := attr_Mtime a2\<rparr>;
          a4 = a3\<lparr>attr_Atime := attr_Mtime a3\<rparr>;
          a5 = (if IsDir i then a4\<lparr>attr_Mode := S_IFDIR OR perm_0755\<rparr>
                else a4\<lparr>attr_Mode := S_IFREG OR perm_0644\<rparr>);
          a6 = a5\<lparr>attr_Uid := UID (Mount c)\<rparr>
      in a6\<lparr>attr_Gid := GID (Mount c)\<rparr>)"

definition stableAttr :: "FileInfo \<Rightarrow> uint32" where
  "stableAttr i = (if IsDir i then S_IFDIR else S_IFREG)"

section \<open>Node operations\<close>

text \<open>The scan of \<open>Lookup\<close> over the listing returns at the first entry of that name.\<close>

fun find_file :: "string \<Rightarrow> FileInfo list \<Rightarrow> FileInfo option" where
  "find_file name [] = None"
| "find_file name (file # rest) = (if Name file = name then Some file else find_file name rest)"

definition Lookup :: "state \<Rightarrow> nat \<Rightarrow> string \<Rightarrow> Attr \<Rightarrow> (Errno + EntryOut) \<times> state" where
  "Lookup s n name out =
     (case children (nodes s n) name of
        Some child \<Rightarrow>
          (Inr \<lparr>inode = child, stable_Mode = stableAttr (the_info s child),
                out_Attr = setAttr (cfg s) out (the_info s child)\<rparr>, s)
      | None \<Rightarrow>
          (let childPath = filepath_Join (path (nodes s n)) name in
           case client_List (path (nodes s n)) (remote s) of
             (Inl err, r1) \<Rightarrow> (Inl ENOENT, s\<lparr>remote := r1\<rparr>)
           | (Inr files, r1) \<Rightarrow>
               (case find_file name files of
                  None \<Rightarrow> (Inl ENOENT, s\<lparr>remote := r1\<rparr>)
                | Some file \<Rightarrow>
                    (let (i, s1) = new_info file (s\<lparr>remote := r1\<rparr>);
                         (child, s2) = new_node childPath i s1;
                         s3 = add_child n name child s2
                     in (Inr \<lparr>inode = child, stable_Mode = stableAttr file,
                              out_Attr = setAttr (cfg s) out file\<rparr>, s3)))))"

text \<open>
  The body of the \<open>for _, file := range files\<close> loop of \<open>Readdir\<close>. \<open>cell\<close> is the
  address of the loop variable \<open>file\<close>: each iteration stores the next entry there and
  gives \<open>&file\<close> to the child it builds.
\<close>

fun readdir_loop ::
  "nat \<Rightarrow> nat \<Rightarrow> FileInfo list \<Rightarrow> DirEntry list \<Rightarrow> state \<Rightarrow> DirEntry list \<times> state" where
  "readdir_loop n cell [] entries s = (entries, s)"
| "readdir_loop n cell (file # rest) entries s =
     (let (i, s1) = (if loopvar_per_iteration s then new_info file s
                     else (cell, s\<lparr>infos := (infos s)(cell := file)\<rparr>));
          mode = (if IsDir file then S_IFDIR else S_IFREG);
          entries1 = entries @ [\<lparr>entry_Name = Name file, entry_Mode = mode\<rparr>];
          (child, s2) = new_node (filepath_Join (path (nodes s1 n)) (Name file)) i s1;
          s3 = add_child n (Name file) child s2
      in readdir_loop n cell rest entries1 s3)"

definition Readdir :: "state \<Rightarrow> nat \<Rightarrow> (Errno + DirEntry list) \<times> state" where
  "Readdir s n =
     (if \<not> IsDir (the_info s n) then (Inl ENOTDIR, s)
      else case client_List (path (nodes s n)) (remote s) of
             (Inl err, r1) \<Rightarrow> (Inl EIO, s\<lparr>remote := r1\<rparr>)
           | (Inr files, r1) \<Rightarrow>
               (let s1 = s\<lparr>remote := r1\<rparr>;
                    s2 = s1\<lparr>nodes := (nodes s1)(n := (nodes s1 n)\<lparr>children := Map.empty\<rparr>)\<rparr>;
                    cell = next_info s2;
                    s3 = (if loopvar_per_iteration s2 then s2
                          else s2\<lparr>next_info := next_info s2 + 1\<rparr>);
                    (entries, s4) = readdir_loop n cell files [] s3
                in (Inr entries, s4)))"

definition Getattr :: "state \<Rightarrow> nat \<Rightarrow> Attr \<Rightarrow> (Errno + Attr) \<times> state" where
  "Getattr s n out = (Inr (setAttr (cfg s) out (the_info s n)), s)"

definition Open :: "state \<Rightarrow> nat \<Rightarrow> uint32 \<Rightarrow> (Errno + koneksiFileHandle \<times> uint32) \<times> state" where
  "Open s n fl =
     (if IsDir (the_info s n) then (Inl EISDIR, s)
      else if ReadOnly (Mount (cfg s)) \<and> fl AND (O_WRONLY OR O_RDWR) \<noteq> 0 then (Inl EROFS, s)
      else (Inr (\<lparr>node = n, flags = fl\<rparr>, FOPEN_DIRECT_IO), s))"

definition Create ::
  "state \<Rightarrow> nat \<Rightarrow> string \<Rightarrow> uint32 \<Rightarrow> uint32 \<Rightarrow> Attr
     \<Rightarrow> (Errno + EntryOut \<times> koneksiFileHandle \<times> uint32) \<times> state" where
  "Create s n name fl mode out =
     (if ReadOnly (Mount (cfg s)) then (Inl EROFS, s)
      else
        (let childPath = filepath_Join (path (nodes s n)) name in
         case client_Write (now s) childPath [] (remote s) of
           (Inl err, r1) \<Rightarrow> (Inl EIO, s\<lparr>remote := r1\<rparr>)
         | (Inr ok, r1) \<Rightarrow>
             (let file = \<lparr>Name = name, Size = 0, IsDir = False, Modified = now s,
                          Path = childPath\<rparr>;
                  (i, s1) = new_info file (s\<lparr>remote := r1\<rparr>);
                  (child, s2) = new_node childPath i s1;
                  s3 = add_child n name child s2
              in (Inr (\<lparr>inode = child, stable_Mode = stableAttr file,
                        out_Attr = setAttr (cfg s) out file\<rparr>,
                       \<lparr>node = child, flags = fl\<rparr>, FOPEN_DIRECT_IO), s3))))"

definition Mkdir ::
  "state \<Rightarrow> nat \<Rightarrow> string \<Rightarrow> uint32 \<Rightarrow> Attr \<Rightarrow> (Errno + EntryOut) \<times> state" where
  "Mkdir s n name mode out =
     (if ReadOnly (Mount (cfg s)) then (Inl EROFS, s)
      else
        (let childPath = filepath_Join (path (nodes s n)) name in
         case client_Mkdir (now s) childPath (remote s) of
           (Inl err, r1) \<Rightarrow> (Inl EIO, s\<lparr>remote := r1\<rparr>)
         | (Inr ok, r1) \<Rightarrow>
             (let file = \<lparr>Name = name, Size = 0, IsDir = True, Modified = now s,
                          Path = childPath\<rparr>;
                  (i, s1) = new_info file (s\<lparr>remote := r1\<rparr>);
                  (child, s2) = new_node childPath i s1;
                  s3 = add_child n name child s2
              in (Inr \<lparr>inode = child, stable_Mode = stableAttr file,
                       out_Attr = setAttr (cfg s) out file\<rparr>, s3))))"

definition Unlink :: "state \<Rightarrow> nat \<Rightarrow> string \<Rightarrow> (Errno + unit) \<times> state" where
  "Unlink s n name =
     (if ReadOnly (Mount (cfg s)) then (Inl EROFS, s)
      else
        (let childPath = filepath_Join (path (nodes s n)) name in
         case client_Delete childPath (remote s) of
           (Inl err, r1) \<Rightarrow> (Inl EIO, s\<lparr>remote := r1\<rparr>)
         | (Inr ok, r1) \<Rightarrow>
             (let s1 = s\<lparr>remote := r1\<rparr>
              in (Inr (),
                  s1\<lparr>nodes := (nodes s1)
                       (n := (nodes s1 n)\<lparr>children := (children (nodes s1 n))(name := None)\<rparr>)\<rparr>))))"

definition Rmdir :: "state \<Rightarrow> nat \<Rightarrow> string \<Rightarrow> (Errno + unit) \<times> state" where
  "Rmdir s n name = Unlink s n name"

section \<open>File handle operations\<close>

text \<open>\<open>dest\<close> is the caller's buffer; the result is \<open>dest[:n]\<close> after \<open>io.ReadFull\<close> filled it.\<close>

definition Read ::
  "state \<Rightarrow> koneksiFileHandle \<Rightarrow> byte list \<Rightarrow> int64 \<Rightarrow> (Errno + byte list) \<times> state" where
  "Read s fh dest off =
     (case client_Read (path (nodes s (node fh))) (remote s) of
        (Inl err, r1) \<Rightarrow> (Inl EIO, s\<lparr>remote := r1\<rparr>)
      | (Inr reader, r1) \<Rightarrow>
          (let s1 = s\<lparr>remote := r1\<rparr>;
               (skipped, err, reader1) =
                  (if 0 < sint off then io_CopyN False reader (nat (sint off))
                   else ([], None, reader))
           in if err = Some EOF then (Inr [], s1)
              else if err \<noteq> None then (Inl EIO, s1)
              else (case io_ReadFull reader1 (length dest) of
                      (got, err1) \<Rightarrow>
                        if err1 \<noteq> None \<and> err1 \<noteq> Some EOF \<and> err1 \<noteq> Some ErrUnexpectedEOF
                        then (Inl EIO, s1)
                        else (Inr got, s1))))"

text \<open>
  The first half of \<open>Write\<close>: the scratch file after the copy of the first \<open>off\<close> bytes of
  the current object (only when \<open>off > 0\<close>; \<open>io.EOF\<close> from \<open>io.CopyN\<close> is tolerated),
  the write of \<open>data\<close> and the seek back to the start.
\<close>

definition write_scratch ::
  "state \<Rightarrow> koneksiFileHandle \<Rightarrow> byte list \<Rightarrow> int64 \<Rightarrow> (Errno + byte list) \<times> state" where
  "write_scratch s fh data off =
     (if create_temp_err (os s) then (Inl EIO, s)
      else
        (let (copied, s1) =
               (if 0 < sint off then
                  (case client_Read (path (nodes s (node fh))) (remote s) of
                     (Inl err, r1) \<Rightarrow> (Inl EIO, s\<lparr>remote := r1\<rparr>)
                   | (Inr reader, r1) \<Rightarrow>
                       (case io_CopyN (temp_write_err (os s)) reader (nat (sint off)) of
                          (written, err, reader1) \<Rightarrow>
                            if err \<noteq> None \<and> err \<noteq> Some EOF then (Inl EIO, s\<lparr>remote := r1\<rparr>)
                            else (Inr written, s\<lparr>remote := r1\<rparr>)))
                else (Inr [], s))
         in case copied of
              Inl e \<Rightarrow> (Inl e, s1)
            | Inr tempFile \<Rightarrow>
                if temp_write_err (os s) \<and> data \<noteq> [] then (Inl EIO, s1)
                else if temp_seek_err (os s) then (Inl EIO, s1)
                else (Inr (tempFile @ data), s1)))"

definition Write ::
  "state \<Rightarrow> koneksiFileHandle \<Rightarrow> byte list \<Rightarrow> int64 \<Rightarrow> (Errno + uint32) \<times> state" where
  "Write s fh data off =
     (if ReadOnly (Mount (cfg s)) then (Inl EROFS, s)
      else case write_scratch s fh data off of
             (Inl e, s1) \<Rightarrow> (Inl e, s1)
           | (Inr tempFile, s1) \<Rightarrow>
               (case client_Write (now s1) (path (nodes s1 (node fh))) tempFile (remote s1) of
                  (Inl err, r2) \<Rightarrow> (Inl EIO, s1\<lparr>remote := r2\<rparr>)
                | (Inr ok, r2) \<Rightarrow>
                    (let s2 = s1\<lparr>remote := r2\<rparr>;
                         i = info (nodes s2 (node fh));
                         n = length data;
                         s3 = s2\<lparr>infos := (infos s2)(i := (infos s2 i)\<lparr>Size := off + of_nat n\<rparr>)\<rparr>;
                         s4 = s3\<lparr>infos := (infos s3)(i := (infos s3 i)\<lparr>Modified := now s3\<rparr>)\<rparr>
                     in (Inr (of_nat n), s4))))"

section \<open>Notions used in the statements\<close>

text \<open>
  \<open>next_outcome\<close> is what the transport answers to the next remote call, \<open>all_succeed k\<close>
  says that the next \<open>k\<close> remote calls succeed, \<open>os_ok\<close> that the local scratch file
  works. \<open>readable s p\<close> is the content a remote read of \<open>p\<close> delivers, \<open>new_calls s s'\<close>
  the remote calls issued between two states, \<open>handle_path\<close> the path of a handle's node.
\<close>

definition next_outcome :: "outcome list \<Rightarrow> outcome" where
  "next_outcome pl = (case pl of [] \<Rightarrow> Succeed | x # xs \<Rightarrow> x)"

definition all_succeed :: "nat \<Rightarrow> outcome list \<Rightarrow> bool" where
  "all_succeed k pl = list_all (\<lambda>oc. oc = Succeed) (take k pl)"

definition os_ok :: "osenv \<Rightarrow> bool" where
  "os_ok e = (\<not> create_temp_err e \<and> \<not> temp_write_err e \<and> \<not> temp_seek_err e)"

definition readable :: "state \<Rightarrow> path \<Rightarrow> byte list option" where
  "readable s p =
     (case map_of (objects (remote s)) p of
        None \<Rightarrow> None
      | Some ob \<Rightarrow> if o_dir ob then None else Some (o_data ob))"

definition new_calls :: "state \<Rightarrow> state \<Rightarrow> (rcall \<times> outcome) list" where
  "new_calls s s' = drop (length (calls (remote s))) (calls (remote s'))"

definition handle_path :: "state \<Rightarrow> koneksiFileHandle \<Rightarrow> path" where
  "handle_path s fh = path (nodes s (node fh))"

section \<open>The scenario of the specification: \<open>/docs\<close> lists \<open>a.txt\<close> of 10 bytes\<close>

definition ex_time :: Time where
  "ex_time = \<lparr>unix_sec = 1700000000, nsec = 0\<rparr>"

definition ex_bytes :: "byte list" where
  "ex_bytes = [0, 1, 2, 3, 4, 5, 6, 7, 8, 9]"

definition attr0 :: Attr where
  "attr0 = \<lparr>attr_Size = 0, attr_Atime = 0, attr_Mtime = 0, attr_Ctime = 0, attr_Atimensec = 0,
            attr_Mtimensec = 0, attr_Ctimensec = 0, attr_Mode = 0, attr_Uid = 0, attr_Gid = 0\<rparr>"

definition ex_cfg :: Config where
  "ex_cfg = \<lparr>Mount = \<lparr>ReadOnly = False, AllowOther = False, UID = 1000, GID = 1000,
                       Umask = 0x12\<rparr>\<rparr>"

definition ex_remote :: remote where
  "ex_remote =
     \<lparr>objects = [([''docs''], \<lparr>o_dir = True, o_data = [], o_mtime = ex_time\<rparr>),
                 ([''docs'', ''a.txt''], \<lparr>o_dir = False, o_data = ex_bytes, o_mtime = ex_time\<rparr>)],
      plan = [], calls = []\<rparr>"

definition ex_nodes :: "nat \<Rightarrow> koneksiNode" where
  "ex_nodes =
     (\<lambda>a. \<lparr>path = [], info = 0, children = Map.empty\<rparr>)
       (0 := \<lparr>path = [], info = 0, children = [''docs'' \<mapsto> 1]\<rparr>,
        1 := \<lparr>path = [''docs''], info = 1, children = [''a.txt'' \<mapsto> 2]\<rparr>,
        2 := \<lparr>path = [''docs'', ''a.txt''], info = 2, children = Map.empty\<rparr>)"

definition ex_infos :: "nat \<Rightarrow> FileInfo" where
  "ex_infos =
     (\<lambda>a. \<lparr>Name = [], Size = 0, IsDir = True, Modified = ex_time, Path = []\<rparr>)
       (1 := \<lparr>Name = ''docs'', Size = 0, IsDir = True, Modified = ex_time, Path = [''docs'']\<rparr>,
        2 := \<lparr>Name = ''a.txt'', Size = 10, IsDir = False, Modified = ex_time,
               Path = [''docs'', ''a.txt'']\<rparr>)"

definition ex_state :: state where
  "ex_state =
     \<lparr>cfg = ex_cfg, nodes = ex_nodes, infos = ex_infos, next_node = 3, next_info = 3,
      remote = ex_remote, now = \<lparr>unix_sec = 1700000600, nsec = 0\<rparr>,
      os = \<lparr>create_temp_err = False, temp_write_err = False, temp_seek_err = False\<rparr>,
      loopvar_per_iteration = False\<rparr>"

definition ex_readonly :: state where
  "ex_readonly = ex_state\<lparr>cfg := \<lparr>Mount = (Mount ex_cfg)\<lparr>ReadOnly := True\<rparr>\<rparr>\<rparr>"

definition ex_fh :: koneksiFileHandle where
  "ex_fh = \<lparr>node = 2, flags = O_RDWR\<rparr>"

definition ex_upload_fails :: state where
  "ex_upload_fails = ex_state\<lparr>remote := ex_remote\<lparr>plan := [Succeed, Fail]\<rparr>\<rparr>"

definition ex_delete_fails :: state where
  "ex_delete_fails = ex_state\<lparr>remote := ex_remote\<lparr>plan := [Fail]\<rparr>\<rparr>"

definition ex_fresh_list_fails :: state where
  "ex_fresh_list_fails =
     ex_state\<lparr>nodes := (\<lambda>a. \<lparr>path = [], info = 0, children = Map.empty\<rparr>),
              next_node := 1, next_info := 1,
              remote := ex_remote\<lparr>plan := [Fail]\<rparr>\<rparr>"

definition ex_umask_077 :: state where
  "ex_umask_077 = ex_state\<lparr>cfg := \<lparr>Mount = (Mount ex_cfg)\<lparr>Umask := 0x3F\<rparr>\<rparr>\<rparr>"

definition ex_mixed :: state where
  "ex_mixed =
     ex_state\<lparr>remote := ex_remote\<lparr>objects :=
        [([''docs''], \<lparr>o_dir = True, o_data = [], o_mtime = ex_time\<rparr>),
         ([''docs'', ''a.txt''], \<lparr>o_dir = False, o_data = ex_bytes, o_mtime = ex_time\<rparr>),
         ([''docs'', ''sub''], \<lparr>o_dir = True, o_data = [], o_mtime = ex_time\<rparr>)]\<rparr>\<rparr>"

lemmas ex_defs = ex_state_def ex_cfg_def ex_remote_def ex_nodes_def ex_infos_def ex_fh_def
  ex_readonly_def ex_bytes_def ex_time_def

section \<open>Facts about the remote store and the stream helpers\<close>

lemma map_of_put_object:
  "map_of (put_object p ob l) q = (if q = p then Some ob else map_of l q)"
  by (induction l) auto

lemma issue_eq:
  "issue c r = (next_outcome (plan r), r\<lparr>plan := tl (plan r), calls := calls r @ [(c, next_outcome (plan r))]\<rparr>)"
  by (cases "plan r") (auto simp: issue_def next_outcome_def)

lemma all_succeed_Suc:
  "all_succeed (Suc k) pl \<longleftrightarrow> next_outcome pl = Succeed \<and> all_succeed k (tl pl)"
  by (cases pl) (auto simp: all_succeed_def next_outcome_def)

lemma all_succeed_0: "all_succeed 0 pl"
  by (simp add: all_succeed_def)

lemma client_Read_ok:
  assumes "next_outcome (plan r) = Succeed" "map_of (objects r) p = Some ob" "\<not> o_dir ob"
  shows "client_Read p r = (Inr \<lparr>bytes = o_data ob, broken = False\<rparr>,
            r\<lparr>plan := tl (plan r), calls := calls r @ [(ReadCall p, Succeed)]\<rparr>)"
  using assms by (simp add: client_Read_def issue_eq)

lemma client_Write_ok:
  assumes "next_outcome (plan r) = Succeed"
  shows "client_Write t p buf r = (Inr (),
            r\<lparr>plan := tl (plan r), calls := calls r @ [(WriteCall p buf, Succeed)],
              objects := put_object p \<lparr>o_dir = False, o_data = buf, o_mtime = t\<rparr> (objects r)\<rparr>)"
  using assms by (simp add: client_Write_def issue_eq)

lemma client_Write_fail:
  assumes "next_outcome (plan r) \<noteq> Succeed"
  shows "client_Write t p buf r = (Inl (),
            r\<lparr>plan := tl (plan r), calls := calls r @ [(WriteCall p buf, next_outcome (plan r))]\<rparr>)"
  using assms by (cases "next_outcome (plan r)") (simp_all add: client_Write_def issue_eq)

lemma Read_ok:
  assumes "next_outcome (plan (remote s)) = Succeed"
    and "readable s (handle_path s fh) = Some c"
  shows "Read s fh dest off =
           (Inr (take (length dest) (drop (nat (sint off)) c)),
            s\<lparr>remote := (remote s)\<lparr>plan := tl (plan (remote s)),
                 calls := calls (remote s) @ [(ReadCall (handle_path s fh), Succeed)]\<rparr>\<rparr>)"
proof -
  from assms(2) obtain ob where ob: "map_of (objects (remote s)) (handle_path s fh) = Some ob"
      "\<not> o_dir ob" "o_data ob = c"
    by (auto simp: readable_def split: option.splits if_splits)
  show ?thesis
    unfolding Read_def
    using client_Read_ok[OF assms(1) ob(1,2)] ob(3)
    by (auto simp: io_CopyN_def io_ReadFull_def Let_def handle_path_def)
qed

section \<open>Read-only mounts and reads\<close>

text \<open>
  Claim C8. On a read-only mount every mutating operation (\<open>Create\<close>, \<open>Mkdir\<close>, \<open>Write\<close>,
  \<open>Unlink\<close>, \<open>Rmdir\<close>) returns \<open>EROFS\<close> and leaves the whole state as it was: no remote
  call is recorded, no outcome is consumed, and nothing is inserted into the parent's
  children.
\<close>

theorem readonly_mount_rejects_mutations:
  assumes "ReadOnly (Mount (cfg s))"
  shows "Create s n name fl mode out = (Inl EROFS, s) \<and>
         Mkdir s n name mode out = (Inl EROFS, s) \<and>
         Write s fh data off = (Inl EROFS, s) \<and>
         Unlink s n name = (Inl EROFS, s) \<and>
         Rmdir s n name = (Inl EROFS, s)"
  using assms by (simp add: Create_def Mkdir_def Write_def Unlink_def Rmdir_def)

text \<open>
  Claim C4. \<open>Read\<close> opens one fresh remote read of the object, skips \<open>off\<close> bytes and
  returns up to \<open>len(dest)\<close> bytes of the remainder; running into the end of the stream
  gives the bytes obtained so far as a success. For a 10-byte object, \<open>off = 5\<close> and a
  10-byte buffer give exactly the last 5 bytes.
\<close>

theorem Read_skips_offset_and_reads_short:
  assumes "next_outcome (plan (remote s)) = Succeed"
    and "readable s (handle_path s fh) = Some c"
  shows "fst (Read s fh dest off) = Inr (take (length dest) (drop (nat (sint off)) c)) \<and>
         new_calls s (snd (Read s fh dest off)) = [(ReadCall (handle_path s fh), Succeed)] \<and>
         (length c = 10 \<and> off = 5 \<and> length dest = 10 \<longrightarrow>
            fst (Read s fh dest off) = Inr (drop 5 c) \<and> length (drop 5 c) = 5)"
  using Read_ok[OF assms, of dest off] by (auto simp: new_calls_def)

theorem readonly_mount_rejects_mutations_witness:
  "ReadOnly (Mount (cfg ex_readonly)) \<and>
   Create ex_readonly 1 ''b.txt'' O_RDWR 0 attr0 = (Inl EROFS, ex_readonly) \<and>
   Mkdir ex_readonly 1 ''sub'' 0 attr0 = (Inl EROFS, ex_readonly) \<and>
   Write ex_readonly ex_fh [0x58] 0 = (Inl EROFS, ex_readonly) \<and>
   Unlink ex_readonly 1 ''a.txt'' = (Inl EROFS, ex_readonly) \<and>
   Rmdir ex_readonly 1 ''a.txt'' = (Inl EROFS, ex_readonly) \<and>
   calls (remote (snd (Create ex_readonly 1 ''b.txt'' O_RDWR 0 attr0))) = [] \<and>
   children (nodes (snd (Create ex_readonly 1 ''b.txt'' O_RDWR 0 attr0)) 1) ''b.txt'' = None"
  using readonly_mount_rejects_mutations [of ex_readonly 1 "''b.txt''" O_RDWR 0 attr0 ex_fh "[0x58]" 0]
    readonly_mount_rejects_mutations [of ex_readonly 1 "''sub''" O_RDWR 0 attr0 ex_fh "[0x58]" 0]
    readonly_mount_rejects_mutations [of ex_readonly 1 "''a.txt''" O_RDWR 0 attr0 ex_fh "[0x58]" 0]
  by (simp add: ex_defs)

theorem Read_skips_offset_and_reads_short_witness:
  "next_outcome (plan (remote ex_state)) = Succeed \<and>
   readable ex_state (handle_path ex_state ex_fh) = Some ex_bytes \<and>
   length ex_bytes = 10 \<and>
   fst (Read ex_state ex_fh (replicate 10 0) 5) = Inr [5, 6, 7, 8, 9]"
proof -
  have h1: "next_outcome (plan (remote ex_state)) = Succeed"
    by (simp add: ex_defs next_outcome_def)
  have h2: "readable ex_state (handle_path ex_state ex_fh) = Some ex_bytes"
    by (simp add: ex_defs readable_def handle_path_def)
  have h3: "length ex_bytes = 10" by (simp add: ex_bytes_def)
  from Read_skips_offset_and_reads_short [OF h1 h2, of "replicate 10 0" 5] h3
  have "fst (Read ex_state ex_fh (replicate 10 0) 5) = Inr (drop 5 ex_bytes)" by simp
  then show ?thesis using h1 h2 h3 by (simp add: ex_bytes_def)
qed

section \<open>Writes through a file handle\<close>

lemma client_Read_frame:
  "objects (snd (client_Read p r)) = objects r \<and>
   calls (snd (client_Read p r)) = calls r @ [(ReadCall p, next_outcome (plan r))] \<and>
   plan (snd (client_Read p r)) = tl (plan r)"
  by (cases "next_outcome (plan r)")
     (auto simp: client_Read_def issue_eq split: option.splits)

lemma write_scratch_ok:
  assumes "os_ok (os s)"
    and "0 < sint off \<longrightarrow>
           next_outcome (plan (remote s)) = Succeed \<and> readable s (handle_path s fh) = Some old"
  shows "write_scratch s fh data off =
           (Inr (take (nat (sint off)) old @ data),
            if 0 < sint off
            then s\<lparr>remote := (remote s)\<lparr>plan := tl (plan (remote s)),
                    calls := calls (remote s) @ [(ReadCall (handle_path s fh), Succeed)]\<rparr>\<rparr>
            else s)"
proof (cases "0 < sint off")
  case True
  with assms(2) obtain ob where ob: "map_of (objects (remote s)) (handle_path s fh) = Some ob"
      "\<not> o_dir ob" "o_data ob = old" and nx: "next_outcome (plan (remote s)) = Succeed"
    by (auto simp: readable_def split: option.splits if_splits)
  show ?thesis
    using True assms(1) client_Read_ok[OF nx ob(1,2)] ob(3)
    by (auto simp: write_scratch_def os_ok_def io_CopyN_def handle_path_def)
next
  case False
  then show ?thesis using assms(1) by (simp add: write_scratch_def os_ok_def)
qed

lemma write_scratch_frame:
  assumes "write_scratch s fh data off = (r, s1)"
  shows "infos s1 = infos s \<and> nodes s1 = nodes s \<and> now s1 = now s \<and>
         objects (remote s1) = objects (remote s) \<and>
         (calls (remote s1) = calls (remote s) \<or>
          (\<exists>oc. calls (remote s1) = calls (remote s) @ [(ReadCall (handle_path s fh), oc)]))"
  using assms client_Read_frame[of "handle_path s fh" "remote s"]
  by (auto simp: write_scratch_def handle_path_def split: if_splits prod.splits sum.splits)

lemma Write_ok:
  assumes ro: "\<not> ReadOnly (Mount (cfg s))" and osk: "os_ok (os s)"
    and pl: "all_succeed 2 (plan (remote s))"
    and old: "0 < sint off \<longrightarrow> readable s (handle_path s fh) = Some old"
  shows "fst (Write s fh data off) = Inr (of_nat (length data))"
    and "readable (snd (Write s fh data off)) (handle_path s fh) =
           Some (take (nat (sint off)) old @ data)"
    and "infos (snd (Write s fh data off)) =
           (infos s)(info (nodes s (node fh)) :=
              (infos s (info (nodes s (node fh))))
                \<lparr>Size := off + of_nat (length data), Modified := now s\<rparr>)"
    and "nodes (snd (Write s fh data off)) = nodes s"
    and "new_calls s (snd (Write s fh data off)) =
           (if 0 < sint off then [(ReadCall (handle_path s fh), Succeed)] else []) @
           [(WriteCall (handle_path s fh) (take (nat (sint off)) old @ data), Succeed)]"
    and "plan (remote (snd (Write s fh data off))) =
           drop (if 0 < sint off then 2 else 1) (plan (remote s))"
    and "cfg (snd (Write s fh data off)) = cfg s \<and> os (snd (Write s fh data off)) = os s"
proof -
  have n1: "next_outcome (plan (remote s)) = Succeed"
    and n2: "next_outcome (tl (plan (remote s))) = Succeed"
    using pl by (simp_all add: numeral_2_eq_2 all_succeed_Suc)
  have scr: "write_scratch s fh data off =
           (Inr (take (nat (sint off)) old @ data),
            if 0 < sint off
            then s\<lparr>remote := (remote s)\<lparr>plan := tl (plan (remote s)),
                    calls := calls (remote s) @ [(ReadCall (handle_path s fh), Succeed)]\<rparr>\<rparr>
            else s)"
    using write_scratch_ok[OF osk, of off fh old data] n1 old by blast
  show "fst (Write s fh data off) = Inr (of_nat (length data))"
    using ro n1 n2 by (simp add: Write_def scr client_Write_ok Let_def)
  show "readable (snd (Write s fh data off)) (handle_path s fh) =
           Some (take (nat (sint off)) old @ data)"
    using ro n1 n2
    by (simp add: Write_def scr client_Write_ok Let_def readable_def map_of_put_object
        handle_path_def)
  show "infos (snd (Write s fh data off)) =
           (infos s)(info (nodes s (node fh)) :=
              (infos s (info (nodes s (node fh))))
                \<lparr>Size := off + of_nat (length data), Modified := now s\<rparr>)"
    using ro n1 n2 by (simp add: Write_def scr client_Write_ok Let_def)
  show "nodes (snd (Write s fh data off)) = nodes s"
    using ro n1 n2 by (simp add: Write_def scr client_Write_ok Let_def)
  show "new_calls s (snd (Write s fh data off)) =
           (if 0 < sint off then [(ReadCall (handle_path s fh), Succeed)] else []) @
           [(WriteCall (handle_path s fh) (take (nat (sint off)) old @ data), Succeed)]"
    using ro n1 n2
    by (simp add: Write_def scr client_Write_ok Let_def new_calls_def handle_path_def)
  show "plan (remote (snd (Write s fh data off))) =
           drop (if 0 < sint off then 2 else 1) (plan (remote s))"
    using ro n1 n2
    by (simp add: Write_def scr client_Write_ok Let_def drop_Suc numeral_2_eq_2 drop_tl)
  show "cfg (snd (Write s fh data off)) = cfg s \<and> os (snd (Write s fh data off)) = os s"
    using ro n1 n2 by (simp add: Write_def scr client_Write_ok Let_def)
qed

lemma sint_add_nat:
  fixes off :: int64
  assumes "0 \<le> sint off" "nat (sint off) + m < 2 ^ 63"
  shows "sint (off + of_nat m) = sint off + int m"
proof -
  have "int (nat (sint off) + m) < 2 ^ 63"
    using assms(2) by (metis of_nat_less_numeral_power_cancel_iff)
  then have b: "sint off + int m < 2 ^ 63" using assms(1) by simp
  have "off + of_nat m = word_of_int (sint off + int m)" by simp
  then have "sint (off + of_nat m) = signed_take_bit 63 (sint off + int m)"
    by (simp only: sint_sbintrunc') simp
  also have "\<dots> = sint off + int m"
    using b assms(1) by (intro signed_take_bit_int_eq_self) auto
  finally show ?thesis .
qed

lemma Create_ok:
  assumes "\<not> ReadOnly (Mount (cfg s))" and "next_outcome (plan (remote s)) = Succeed"
  shows "\<exists>e s1. Create s n name fl mode out =
            (Inr (e, \<lparr>node = next_node s, flags = fl\<rparr>, FOPEN_DIRECT_IO), s1) \<and>
          cfg s1 = cfg s \<and> os s1 = os s \<and> plan (remote s1) = tl (plan (remote s)) \<and>
          path (nodes s1 (next_node s)) = filepath_Join (path (nodes s n)) name \<and>
          children (nodes s1 n) name = Some (next_node s) \<and>
          readable s1 (filepath_Join (path (nodes s n)) name) = Some []"
  using assms
  by (simp add: Create_def client_Write_ok new_info_def new_node_def add_child_def Let_def
      readable_def map_of_put_object)

text \<open>
  Claim C2. On a writable mount whose next three remote calls succeed and whose scratch
  file works, \<open>Create\<close> yields a handle on a new empty object, \<open>Write\<close> of \<open>data\<close> at
  offset 0 through it succeeds with \<open>len(data)\<close> bytes written, and \<open>Read\<close> of
  \<open>[0, len(data))\<close> through the same handle returns exactly \<open>data\<close>.
\<close>

theorem write_then_read_roundtrip:
  assumes ro: "\<not> ReadOnly (Mount (cfg s))" and osk: "os_ok (os s)"
    and pl: "all_succeed 3 (plan (remote s))"
    and len: "length dest = length data"
  shows "\<exists>e fh fl s1 s2.
           Create s n name fl0 mode out = (Inr (e, fh, fl), s1) \<and>
           readable s1 (handle_path s1 fh) = Some [] \<and>
           Write s1 fh data 0 = (Inr (of_nat (length data)), s2) \<and>
           fst (Read s2 fh dest 0) = Inr data"
proof -
  have n1: "next_outcome (plan (remote s)) = Succeed"
    and p2: "all_succeed 2 (tl (plan (remote s)))"
    and n3: "next_outcome (tl (tl (plan (remote s)))) = Succeed"
    using pl by (simp_all add: numeral_3_eq_3 numeral_2_eq_2 all_succeed_Suc)
  define fh where "fh = \<lparr>node = next_node s, flags = fl0\<rparr>"
  from Create_ok[OF ro n1, of n name fl0 mode out]
  obtain e s1 where c: "Create s n name fl0 mode out = (Inr (e, fh, FOPEN_DIRECT_IO), s1)"
    and s1: "cfg s1 = cfg s" "os s1 = os s" "plan (remote s1) = tl (plan (remote s))"
    and hp: "handle_path s1 fh = filepath_Join (path (nodes s n)) name"
    and empty: "readable s1 (handle_path s1 fh) = Some []"
    by (auto simp: fh_def handle_path_def)
  define s2 where "s2 = snd (Write s1 fh data 0)"
  have ro1: "\<not> ReadOnly (Mount (cfg s1))" and osk1: "os_ok (os s1)"
    and pl1: "all_succeed 2 (plan (remote s1))"
    using ro osk p2 s1 by simp_all
  have triv: "0 < sint (0 :: int64) \<longrightarrow> readable s1 (handle_path s1 fh) = Some []" by simp
  note w = Write_ok[OF ro1 osk1 pl1 triv, of data, folded s2_def]
  have wr: "Write s1 fh data 0 = (Inr (of_nat (length data)), s2)"
    using w(1) by (simp add: s2_def prod_eq_iff)
  have "handle_path s2 fh = handle_path s1 fh"
    using w(4) by (simp add: handle_path_def)
  then have rd: "readable s2 (handle_path s2 fh) = Some data"
    using w(2) by simp
  have "next_outcome (plan (remote s2)) = Succeed"
    using w(6) n3 s1(3) by (simp add: drop_Suc)
  from Read_ok[OF this rd, of dest 0] len
  have "fst (Read s2 fh dest 0) = Inr data" by simp
  with c empty wr show ?thesis by blast
qed

text \<open>
  Claim C1, as amended. Writing \<open>M\<close> bytes at offset \<open>K > 0\<close> into an object of \<open>L \<ge> K\<close>
  bytes keeps bytes \<open>[0, K)\<close>, puts the written data at \<open>[K, K+M)\<close> and leaves an object
  of exactly \<open>K+M\<close> bytes: \<open>Write\<close> replaces the whole object by the first \<open>K\<close> old bytes
  followed by the data (the source calls this a full file replacement).
\<close>

theorem Write_at_offset_keeps_prefix:
  assumes "\<not> ReadOnly (Mount (cfg s))" and "os_ok (os s)"
    and "all_succeed 2 (plan (remote s))"
    and "readable s (handle_path s fh) = Some old"
    and "0 < sint off" and "nat (sint off) \<le> length old"
  shows "fst (Write s fh data off) = Inr (of_nat (length data)) \<and>
         (\<exists>new. readable (snd (Write s fh data off)) (handle_path s fh) = Some new \<and>
            take (nat (sint off)) new = take (nat (sint off)) old \<and>
            drop (nat (sint off)) new = data \<and>
            length new = nat (sint off) + length data)"
proof -
  have old: "0 < sint off \<longrightarrow> readable s (handle_path s fh) = Some old"
    using assms(4) by simp
  show ?thesis
    using Write_ok(1,2)[OF assms(1-3) old, of data] assms(6) by simp
qed

text \<open>
  Claim C10. When the object is longer than \<open>K+M\<close>, a successful \<open>Write\<close> of \<open>M\<close> bytes at
  offset \<open>K\<close> uploads exactly the first \<open>K\<close> old bytes followed by the data: the new object
  has \<open>K+M\<close> bytes, the old bytes from \<open>K+M\<close> on are gone (the only upload does not carry
  them, and the only read stops after \<open>K\<close> bytes), and the cached size is \<open>K+M\<close>.
\<close>

theorem Write_discards_tail:
  assumes "\<not> ReadOnly (Mount (cfg s))" and "os_ok (os s)"
    and "all_succeed 2 (plan (remote s))"
    and "readable s (handle_path s fh) = Some old"
    and "0 \<le> sint off" and "nat (sint off) + length data < length old"
    and "length old < 2 ^ 63"
  shows "fst (Write s fh data off) = Inr (of_nat (length data)) \<and>
         readable (snd (Write s fh data off)) (handle_path s fh) =
           Some (take (nat (sint off)) old @ data) \<and>
         length (take (nat (sint off)) old @ data) = nat (sint off) + length data \<and>
         new_calls s (snd (Write s fh data off)) =
           (if 0 < sint off then [(ReadCall (handle_path s fh), Succeed)] else []) @
           [(WriteCall (handle_path s fh) (take (nat (sint off)) old @ data), Succeed)] \<and>
         Size (the_info (snd (Write s fh data off)) (node fh)) = off + of_nat (length data) \<and>
         sint (Size (the_info (snd (Write s fh data off)) (node fh))) =
           int (nat (sint off) + length data)"
proof -
  have old: "0 < sint off \<longrightarrow> readable s (handle_path s fh) = Some old"
    using assms(4) by simp
  note w = Write_ok[OF assms(1-3) old, of data]
  have sz: "Size (the_info (snd (Write s fh data off)) (node fh)) = off + of_nat (length data)"
    by (simp add: the_info_def w(3,4))
  have "nat (sint off) + length data < 2 ^ 63"
    using assms(6,7) by linarith
  from sint_add_nat[OF assms(5) this]
  have "sint (off + of_nat (length data)) = int (nat (sint off) + length data)"
    using assms(5) by simp
  with sz w(1,2,5) assms(6) show ?thesis by simp
qed

lemma Write_error_frame:
  assumes "fst (Write s fh data off) = Inl e"
  shows "infos (snd (Write s fh data off)) = infos s \<and>
         nodes (snd (Write s fh data off)) = nodes s \<and>
         objects (remote (snd (Write s fh data off))) = objects (remote s)"
proof (cases "ReadOnly (Mount (cfg s))")
  case True
  then show ?thesis by (simp add: Write_def)
next
  case ro: False
  obtain r s1 where scr: "write_scratch s fh data off = (r, s1)"
    by (cases "write_scratch s fh data off")
  note fr = write_scratch_frame[OF scr]
  show ?thesis
  proof (cases r)
    case (Inl e')
    then show ?thesis using ro scr fr by (simp add: Write_def)
  next
    case (Inr buf)
    show ?thesis
    proof (cases "next_outcome (plan (remote s1)) = Succeed")
      case True
      then show ?thesis using assms ro scr Inr
        by (simp add: Write_def client_Write_ok Let_def)
    next
      case False
      then show ?thesis using ro scr Inr fr
        by (simp add: Write_def client_Write_fail)
    qed
  qed
qed

lemma Write_failed_upload:
  assumes "(WriteCall p buf, oc) \<in> set (new_calls s (snd (Write s fh data off)))"
    and "oc \<noteq> Succeed"
  shows "fst (Write s fh data off) = Inl EIO"
proof (cases "ReadOnly (Mount (cfg s))")
  case True
  then show ?thesis using assms by (simp add: Write_def new_calls_def)
next
  case ro: False
  obtain r s1 where scr: "write_scratch s fh data off = (r, s1)"
    by (cases "write_scratch s fh data off")
  note fr = write_scratch_frame[OF scr]
  show ?thesis
  proof (cases r)
    case (Inl e')
    then show ?thesis using ro scr fr assms by (auto simp: Write_def new_calls_def)
  next
    case (Inr b)
    show ?thesis
    proof (cases "next_outcome (plan (remote s1)) = Succeed")
      case True
      then show ?thesis using assms ro scr Inr fr
        by (auto simp: Write_def client_Write_ok Let_def new_calls_def)
    next
      case False
      then show ?thesis using ro scr Inr
        by (simp add: Write_def client_Write_fail)
    qed
  qed
qed

lemma Write_success_frame:
  assumes "fst (Write s fh data off) = Inr w"
  shows "w = of_nat (length data) \<and>
         (\<exists>buf. calls (remote (snd (Write s fh data off))) \<noteq> [] \<and>
                last (calls (remote (snd (Write s fh data off)))) =
                  (WriteCall (handle_path s fh) buf, Succeed) \<and>
                new_calls s (snd (Write s fh data off)) \<noteq> []) \<and>
         nodes (snd (Write s fh data off)) = nodes s \<and>
         infos (snd (Write s fh data off)) =
           (infos s)(info (nodes s (node fh)) :=
              (infos s (info (nodes s (node fh))))
                \<lparr>Size := off + of_nat (length data), Modified := now s\<rparr>)"
proof (cases "ReadOnly (Mount (cfg s))")
  case True
  then show ?thesis using assms by (simp add: Write_def)
next
  case ro: False
  obtain r s1 where scr: "write_scratch s fh data off = (r, s1)"
    by (cases "write_scratch s fh data off")
  note fr = write_scratch_frame[OF scr]
  show ?thesis
  proof (cases r)
    case (Inl e')
    then show ?thesis using ro scr assms by (simp add: Write_def)
  next
    case (Inr b)
    show ?thesis
    proof (cases "next_outcome (plan (remote s1)) = Succeed")
      case True
      then show ?thesis using assms ro scr Inr fr
        by (auto simp: Write_def client_Write_ok Let_def new_calls_def handle_path_def)
    next
      case False
      then show ?thesis using ro scr Inr assms
        by (simp add: Write_def client_Write_fail)
    qed
  qed
qed

section \<open>Failed uploads and removal\<close>

lemma find_file_None: "find_file name fs = None \<longleftrightarrow> name \<notin> Name ` set fs"
  by (induction fs) auto

lemma listing_after_delete:
  "find_file name (listing d (filter (\<lambda>e. take (length (d @ [name])) (fst e) \<noteq> d @ [name]) obs)) = None"
proof -
  have "fst e = d @ [name]"
    if "fst e \<noteq> []" "butlast (fst e) = d" "last (fst e) = name" for e :: "path \<times> robject"
    using that by (metis append_butlast_last_id)
  then show ?thesis
    unfolding find_file_None listing_def entry_of_def by auto
qed

lemma Lookup_miss_not_listed:
  assumes "children (nodes s n) name = None"
    and "find_file name (listing (path (nodes s n)) (objects (remote s))) = None"
  shows "fst (Lookup s n name out) = Inl ENOENT"
  using assms
  by (cases "next_outcome (plan (remote s))")
     (simp_all add: Lookup_def client_List_def issue_eq)

text \<open>
  Claim C3. If the upload of a \<open>Write\<close> call fails, the call returns \<open>EIO\<close> and the cached
  attributes of the node and the readable content of the remote object are as before
  the call. A call that succeeds has issued a successful upload as its last remote call
  and then set the cached size to \<open>off + len(data)\<close> and the modification time to the
  current time; a call that returns any error leaves both untouched.
\<close>

theorem failed_upload_leaves_state:
  "((\<exists>buf oc. (WriteCall (handle_path s fh) buf, oc)
                 \<in> set (new_calls s (snd (Write s fh data off))) \<and> oc \<noteq> Succeed) \<longrightarrow>
      fst (Write s fh data off) = Inl EIO \<and>
      the_info (snd (Write s fh data off)) (node fh) = the_info s (node fh) \<and>
      readable (snd (Write s fh data off)) (handle_path s fh) = readable s (handle_path s fh)) \<and>
   (\<forall>w. fst (Write s fh data off) = Inr w \<longrightarrow>
      w = of_nat (length data) \<and>
      (\<exists>buf. last (calls (remote (snd (Write s fh data off)))) =
               (WriteCall (handle_path s fh) buf, Succeed)) \<and>
      Size (the_info (snd (Write s fh data off)) (node fh)) = off + of_nat (length data) \<and>
      Modified (the_info (snd (Write s fh data off)) (node fh)) = now s) \<and>
   (\<forall>e. fst (Write s fh data off) = Inl e \<longrightarrow>
      the_info (snd (Write s fh data off)) (node fh) = the_info s (node fh) \<and>
      readable (snd (Write s fh data off)) (handle_path s fh) = readable s (handle_path s fh))"
proof -
  have err: "the_info (snd (Write s fh data off)) (node fh) = the_info s (node fh) \<and>
      readable (snd (Write s fh data off)) (handle_path s fh) = readable s (handle_path s fh)"
    if "fst (Write s fh data off) = Inl e" for e
    using Write_error_frame[OF that] by (simp add: the_info_def readable_def)
  have up: "fst (Write s fh data off) = Inl EIO"
    if "(WriteCall (handle_path s fh) buf, oc) \<in> set (new_calls s (snd (Write s fh data off)))"
      "oc \<noteq> Succeed" for buf oc
    using Write_failed_upload[OF that] .
  have ok: "w = of_nat (length data) \<and>
      (\<exists>buf. last (calls (remote (snd (Write s fh data off)))) =
               (WriteCall (handle_path s fh) buf, Succeed)) \<and>
      Size (the_info (snd (Write s fh data off)) (node fh)) = off + of_nat (length data) \<and>
      Modified (the_info (snd (Write s fh data off)) (node fh)) = now s"
    if "fst (Write s fh data off) = Inr w" for w
    using Write_success_frame[OF that] by (auto simp: the_info_def)
  show ?thesis using err up ok by blast
qed

text \<open>
  Claim C6. On a writable mount \<open>Unlink\<close> (and \<open>Rmdir\<close>, which is \<open>Unlink\<close>) issues exactly
  one remote call, the delete of the child path. If it fails the result is \<open>EIO\<close> and
  the node heap, hence the parent's children, is as before. If it succeeds the name,
  and only the name, is removed from the parent's children, and a \<open>Lookup\<close> of that name
  in the parent right afterwards returns \<open>ENOENT\<close>.
\<close>

theorem Remove_deletes_remotely_first:
  assumes "\<not> ReadOnly (Mount (cfg s))"
  shows "new_calls s (snd (Unlink s n name)) =
           [(DeleteCall (filepath_Join (path (nodes s n)) name), next_outcome (plan (remote s)))] \<and>
         (next_outcome (plan (remote s)) \<noteq> Succeed \<longrightarrow>
            fst (Unlink s n name) = Inl EIO \<and>
            nodes (snd (Unlink s n name)) = nodes s \<and>
            objects (remote (snd (Unlink s n name))) = objects (remote s)) \<and>
         (next_outcome (plan (remote s)) = Succeed \<longrightarrow>
            fst (Unlink s n name) = Inr () \<and>
            nodes (snd (Unlink s n name)) =
              (nodes s)(n := (nodes s n)\<lparr>children := (children (nodes s n))(name := None)\<rparr>) \<and>
            fst (Lookup (snd (Unlink s n name)) n name out) = Inl ENOENT) \<and>
         Rmdir s n name = Unlink s n name"
proof (cases "next_outcome (plan (remote s)) = Succeed")
  case True
  have u: "Unlink s n name =
      (Inr (), s\<lparr>remote := (remote s)\<lparr>plan := tl (plan (remote s)),
                   calls := calls (remote s) @ [(DeleteCall (path (nodes s n) @ [name]), Succeed)],
                   objects := filter (\<lambda>e. take (length (path (nodes s n) @ [name])) (fst e)
                                  \<noteq> path (nodes s n) @ [name]) (objects (remote s))\<rparr>,
                 nodes := (nodes s)(n := (nodes s n)\<lparr>children := (children (nodes s n))(name := None)\<rparr>)\<rparr>)"
    using assms True
    by (simp add: Unlink_def client_Delete_def issue_eq filepath_Join_def Let_def)
  have "fst (Lookup (snd (Unlink s n name)) n name out) = Inl ENOENT"
    using listing_after_delete[of name "path (nodes s n)" "objects (remote s)"]
    by (intro Lookup_miss_not_listed) (simp_all add: u)
  then show ?thesis
    using True by (simp add: u Rmdir_def new_calls_def filepath_Join_def)
next
  case False
  then show ?thesis
    using assms
    by (cases "next_outcome (plan (remote s))")
       (simp_all add: Unlink_def client_Delete_def issue_eq Rmdir_def new_calls_def Let_def)
qed

section \<open>The statements on the scenario\<close>

lemmas eval_defs = Write_def write_scratch_def client_Read_def client_Write_def client_List_def
  client_Delete_def issue_def io_CopyN_def io_ReadFull_def new_calls_def readable_def
  handle_path_def the_info_def next_outcome_def all_succeed_def os_ok_def filepath_Join_def
  listing_def entry_of_def

lemma ex_hyps:
  "\<not> ReadOnly (Mount (cfg ex_state))" "os_ok (os ex_state)"
  "all_succeed 2 (plan (remote ex_state))" "all_succeed 3 (plan (remote ex_state))"
  "readable ex_state (handle_path ex_state ex_fh) = Some ex_bytes"
  "next_outcome (plan (remote ex_state)) = Succeed"
  by (simp_all add: ex_defs eval_defs)

theorem write_then_read_roundtrip_witness:
  "\<not> ReadOnly (Mount (cfg ex_state)) \<and> os_ok (os ex_state) \<and>
   all_succeed 3 (plan (remote ex_state)) \<and>
   length (replicate 2 (0 :: byte)) = length [0x68, 0x69 :: byte] \<and>
   (\<exists>e fh fl s1 s2.
      Create ex_state 1 ''b.txt'' O_RDWR 0 attr0 = (Inr (e, fh, fl), s1) \<and>
      readable s1 (handle_path s1 fh) = Some [] \<and>
      Write s1 fh [0x68, 0x69] 0 = (Inr 2, s2) \<and>
      fst (Read s2 fh (replicate 2 0) 0) = Inr [0x68, 0x69])"
proof -
  have len: "length (replicate 2 (0 :: byte)) = length [0x68, 0x69 :: byte]" by simp
  from write_then_read_roundtrip [OF ex_hyps(1,2,4) len, of 1 "''b.txt''" O_RDWR 0 attr0]
  show ?thesis using ex_hyps(1,2,4) by simp
qed

theorem Write_at_offset_keeps_prefix_witness:
  "\<not> ReadOnly (Mount (cfg ex_state)) \<and> os_ok (os ex_state) \<and>
   all_succeed 2 (plan (remote ex_state)) \<and>
   readable ex_state (handle_path ex_state ex_fh) = Some ex_bytes \<and>
   0 < sint (3 :: int64) \<and> nat (sint (3 :: int64)) \<le> length ex_bytes \<and>
   fst (Write ex_state ex_fh [0x58, 0x59] 3) = Inr 2 \<and>
   readable (snd (Write ex_state ex_fh [0x58, 0x59] 3)) (handle_path ex_state ex_fh) =
     Some [0, 1, 2, 0x58, 0x59]"
proof -
  have k: "0 < sint (3 :: int64)" "nat (sint (3 :: int64)) \<le> length ex_bytes"
    by (simp_all add: ex_bytes_def)
  from Write_at_offset_keeps_prefix [OF ex_hyps(1,2,3,5) k, of "[0x58, 0x59]"]
  obtain new where w: "fst (Write ex_state ex_fh [0x58, 0x59] 3) = Inr 2"
    and r: "readable (snd (Write ex_state ex_fh [0x58, 0x59] 3)) (handle_path ex_state ex_fh)
              = Some new"
    and t: "take 3 new = take 3 ex_bytes" and d: "drop 3 new = [0x58, 0x59]"
    by auto
  have "new = take 3 new @ drop 3 new" by simp
  then have "new = [0, 1, 2, 0x58, 0x59]"
    unfolding t d by (simp add: ex_bytes_def)
  with w r k ex_hyps show ?thesis by simp
qed

theorem Write_size_is_not_max_counterexample:
  "readable ex_state (handle_path ex_state ex_fh) = Some ex_bytes \<and>
   length ex_bytes = 10 \<and>
   fst (Write ex_state ex_fh [0x58, 0x59] 3) = Inr 2 \<and>
   map_option length
     (readable (snd (Write ex_state ex_fh [0x58, 0x59] 3)) (handle_path ex_state ex_fh)) = Some 5 \<and>
   (5 :: nat) \<noteq> max (length ex_bytes) (3 + length [0x58, 0x59 :: byte])"
proof -
  have old: "0 < sint (3 :: int64) \<longrightarrow>
      readable ex_state (handle_path ex_state ex_fh) = Some ex_bytes"
    using ex_hyps(5) by simp
  note w = Write_ok(1,2) [OF ex_hyps(1,2,3) old, of "[0x58, 0x59]"]
  show ?thesis using w ex_hyps(5) by (simp add: ex_bytes_def)
qed

theorem Write_discards_tail_witness:
  "\<not> ReadOnly (Mount (cfg ex_state)) \<and> os_ok (os ex_state) \<and>
   all_succeed 2 (plan (remote ex_state)) \<and>
   readable ex_state (handle_path ex_state ex_fh) = Some ex_bytes \<and>
   0 \<le> sint (4 :: int64) \<and>
   nat (sint (4 :: int64)) + length [0x41, 0x42, 0x43 :: byte] < length ex_bytes \<and>
   length ex_bytes < 2 ^ 63 \<and>
   readable (snd (Write ex_state ex_fh [0x41, 0x42, 0x43] 4)) (handle_path ex_state ex_fh) =
     Some [0, 1, 2, 3, 0x41, 0x42, 0x43] \<and>
   new_calls ex_state (snd (Write ex_state ex_fh [0x41, 0x42, 0x43] 4)) =
     [(ReadCall [''docs'', ''a.txt''], Succeed),
      (WriteCall [''docs'', ''a.txt''] [0, 1, 2, 3, 0x41, 0x42, 0x43], Succeed)] \<and>
   sint (Size (the_info (snd (Write ex_state ex_fh [0x41, 0x42, 0x43] 4)) (node ex_fh))) = 7"
proof -
  have k: "0 \<le> sint (4 :: int64)"
    "nat (sint (4 :: int64)) + length [0x41, 0x42, 0x43 :: byte] < length ex_bytes"
    "length ex_bytes < 2 ^ 63"
    by (simp_all add: ex_bytes_def)
  have p: "handle_path ex_state ex_fh = [''docs'', ''a.txt'']"
    by (simp add: handle_path_def ex_defs)
  from Write_discards_tail [OF ex_hyps(1,2,3,5) k]
  show ?thesis using ex_hyps k by (simp add: p) (simp add: ex_bytes_def)
qed

theorem failed_upload_leaves_state_witness:
  "(WriteCall (handle_path ex_upload_fails ex_fh) [0, 1, 2, 0x58, 0x59], Fail)
     \<in> set (new_calls ex_upload_fails (snd (Write ex_upload_fails ex_fh [0x58, 0x59] 3))) \<and>
   fst (Write ex_upload_fails ex_fh [0x58, 0x59] 3) = Inl EIO \<and>
   the_info (snd (Write ex_upload_fails ex_fh [0x58, 0x59] 3)) (node ex_fh) =
     the_info ex_upload_fails (node ex_fh) \<and>
   readable (snd (Write ex_upload_fails ex_fh [0x58, 0x59] 3)) (handle_path ex_upload_fails ex_fh) =
     Some ex_bytes \<and>
   fst (Write ex_state ex_fh [0x58, 0x59] 3) = Inr 2 \<and>
   Size (the_info (snd (Write ex_state ex_fh [0x58, 0x59] 3)) (node ex_fh)) = 5 \<and>
   Modified (the_info (snd (Write ex_state ex_fh [0x58, 0x59] 3)) (node ex_fh)) = now ex_state"
proof -
  have c: "(WriteCall (handle_path ex_upload_fails ex_fh) [0, 1, 2, 0x58, 0x59], Fail)
     \<in> set (new_calls ex_upload_fails (snd (Write ex_upload_fails ex_fh [0x58, 0x59] 3)))"
    by (simp add: ex_upload_fails_def ex_defs eval_defs)
  have r: "readable ex_upload_fails (handle_path ex_upload_fails ex_fh) = Some ex_bytes"
    by (simp add: ex_upload_fails_def ex_defs eval_defs)
  have old: "0 < sint (3 :: int64) \<longrightarrow>
      readable ex_state (handle_path ex_state ex_fh) = Some ex_bytes"
    using ex_hyps(5) by simp
  have ok: "fst (Write ex_state ex_fh [0x58, 0x59] 3) = Inr 2"
    using Write_ok(1) [OF ex_hyps(1,2,3) old, of "[0x58, 0x59]"] by simp
  from failed_upload_leaves_state [of ex_upload_fails ex_fh "[0x58, 0x59]" 3] c r
  have a: "fst (Write ex_upload_fails ex_fh [0x58, 0x59] 3) = Inl EIO \<and>
      the_info (snd (Write ex_upload_fails ex_fh [0x58, 0x59] 3)) (node ex_fh) =
        the_info ex_upload_fails (node ex_fh) \<and>
      readable (snd (Write ex_upload_fails ex_fh [0x58, 0x59] 3))
        (handle_path ex_upload_fails ex_fh) = Some ex_bytes"
    by auto
  from failed_upload_leaves_state [of ex_state ex_fh "[0x58, 0x59]" 3] ok
  have b: "Size (the_info (snd (Write ex_state ex_fh [0x58, 0x59] 3)) (node ex_fh)) = 5 \<and>
      Modified (the_info (snd (Write ex_state ex_fh [0x58, 0x59] 3)) (node ex_fh)) = now ex_state"
    by auto
  show ?thesis using a b c ok by blast
qed

theorem Remove_deletes_remotely_first_witness:
  "\<not> ReadOnly (Mount (cfg ex_delete_fails)) \<and>
   next_outcome (plan (remote ex_delete_fails)) \<noteq> Succeed \<and>
   fst (Unlink ex_delete_fails 1 ''a.txt'') = Inl EIO \<and>
   children (nodes (snd (Unlink ex_delete_fails 1 ''a.txt'')) 1) ''a.txt'' = Some 2 \<and>
   \<not> ReadOnly (Mount (cfg ex_state)) \<and>
   next_outcome (plan (remote ex_state)) = Succeed \<and>
   fst (Unlink ex_state 1 ''a.txt'') = Inr () \<and>
   new_calls ex_state (snd (Unlink ex_state 1 ''a.txt'')) =
     [(DeleteCall [''docs'', ''a.txt''], Succeed)] \<and>
   children (nodes (snd (Unlink ex_state 1 ''a.txt'')) 1) ''a.txt'' = None \<and>
   fst (Lookup (snd (Unlink ex_state 1 ''a.txt'')) 1 ''a.txt'' attr0) = Inl ENOENT"
proof -
  have f: "\<not> ReadOnly (Mount (cfg ex_delete_fails))"
    "next_outcome (plan (remote ex_delete_fails)) \<noteq> Succeed"
    "children (nodes ex_delete_fails 1) ''a.txt'' = Some 2"
    by (simp_all add: ex_delete_fails_def ex_defs eval_defs)
  have p: "filepath_Join (path (nodes ex_state 1)) ''a.txt'' = [''docs'', ''a.txt'']"
    by (simp add: ex_defs eval_defs)
  from Remove_deletes_remotely_first [OF f(1), of 1 "''a.txt''" attr0] f(2,3)
  have a: "fst (Unlink ex_delete_fails 1 ''a.txt'') = Inl EIO \<and>
      children (nodes (snd (Unlink ex_delete_fails 1 ''a.txt'')) 1) ''a.txt'' = Some 2"
    by simp
  from Remove_deletes_remotely_first [OF ex_hyps(1), of 1 "''a.txt''" attr0] ex_hyps(6) p
  have b: "fst (Unlink ex_state 1 ''a.txt'') = Inr () \<and>
      new_calls ex_state (snd (Unlink ex_state 1 ''a.txt'')) =
        [(DeleteCall [''docs'', ''a.txt''], Succeed)] \<and>
      children (nodes (snd (Unlink ex_state 1 ''a.txt'')) 1) ''a.txt'' = None \<and>
      fst (Lookup (snd (Unlink ex_state 1 ''a.txt'')) 1 ''a.txt'' attr0) = Inl ENOENT"
    by simp
  show ?thesis using a b f(1,2) ex_hyps(1,6) by blast
qed

section \<open>Where the code departs from the specification\<close>

lemmas node_eval_defs = Lookup_def Readdir_def Getattr_def setAttr_def stableAttr_def
  new_info_def new_node_def add_child_def Unix_def

lemma Lookup_failed_listing:
  assumes "children (nodes s n) name = None" and "next_outcome (plan (remote s)) \<noteq> Succeed"
  shows "fst (Lookup s n name out) = Inl ENOENT"
  using assms
  by (cases "next_outcome (plan (remote s))") (simp_all add: Lookup_def client_List_def issue_eq)

lemma Readdir_failed_listing:
  assumes "IsDir (the_info s n)" and "next_outcome (plan (remote s)) \<noteq> Succeed"
  shows "fst (Readdir s n) = Inl EIO"
  using assms
  by (cases "next_outcome (plan (remote s))") (simp_all add: Readdir_def client_List_def issue_eq)

lemma Getattr_reads_cache:
  "Getattr s n out = (Inr (setAttr (cfg s) out (the_info s n)), s) \<and>
   attr_Mtime (setAttr c out i) = Unix (Modified i) \<and>
   attr_Ctime (setAttr c out i) = Unix (Modified i) \<and>
   attr_Atime (setAttr c out i) = Unix (Modified i) \<and>
   attr_Uid (setAttr c out i) = UID (Mount c) \<and>
   attr_Gid (setAttr c out i) = GID (Mount c) \<and>
   attr_Size (setAttr c out i) = Size i"
  by (simp add: Getattr_def setAttr_def Let_def)

lemma setAttr_independent_of_Umask:
  "setAttr (c\<lparr>Mount := (Mount c)\<lparr>Umask := u\<rparr>\<rparr>) out i = setAttr c out i"
  by (simp add: setAttr_def Let_def)

text \<open>
  Claim C7, evaluated on the code. On a fresh mount the root has no cached child; the
  remote listing of \<open>/\<close> would contain \<open>docs\<close>, but the \<open>List\<close> call fails. The claim
  expects the generic I/O failure; \<open>Lookup\<close> answers \<open>ENOENT\<close>, the not-found error, while
  \<open>Readdir\<close> on the same node and the same failure answers \<open>EIO\<close>.
\<close>

theorem Lookup_reports_failed_listing_as_ENOENT:
  "children (nodes ex_fresh_list_fails 0) ''docs'' = None \<and>
   find_file ''docs'' (listing (path (nodes ex_fresh_list_fails 0))
      (objects (remote ex_fresh_list_fails))) \<noteq> None \<and>
   new_calls ex_fresh_list_fails (snd (Lookup ex_fresh_list_fails 0 ''docs'' attr0)) =
     [(ListCall [], Fail)] \<and>
   fst (Lookup ex_fresh_list_fails 0 ''docs'' attr0) = Inl ENOENT \<and>
   fst (Readdir ex_fresh_list_fails 0) = Inl EIO"
  by (simp add: ex_fresh_list_fails_def ex_defs eval_defs node_eval_defs)

text \<open>
  Claim C9, evaluated on the code. With \<open>mount.umask\<close> set to octal 077, \<open>Getattr\<close> of the
  directory \<open>/docs\<close> yields mode \<open>S_IFDIR | 0755\<close> and of the file \<open>/docs/a.txt\<close> mode
  \<open>S_IFREG | 0644\<close>: not the modes the umask would leave (0700 and 0600), and the same
  attributes as under the default umask 022. The permission bits are constants of
  \<open>setAttr\<close>; the configured umask is never read.
\<close>

theorem setAttr_ignores_umask:
  "Umask (Mount (cfg ex_umask_077)) = 0x3F \<and>
   map_sum id attr_Mode (fst (Getattr ex_umask_077 1 attr0)) = Inr (S_IFDIR OR perm_0755) \<and>
   S_IFDIR OR perm_0755 \<noteq> S_IFDIR OR (0x1FF AND NOT (Umask (Mount (cfg ex_umask_077)))) \<and>
   map_sum id attr_Mode (fst (Getattr ex_umask_077 2 attr0)) = Inr (S_IFREG OR perm_0644) \<and>
   S_IFREG OR perm_0644 \<noteq> S_IFREG OR (0x1B6 AND NOT (Umask (Mount (cfg ex_umask_077)))) \<and>
   fst (Getattr ex_umask_077 1 attr0) = fst (Getattr ex_state 1 attr0)"
  by (simp add: ex_umask_077_def ex_defs eval_defs node_eval_defs S_IFDIR_def S_IFREG_def
      perm_0755_def perm_0644_def)

text \<open>
  Claim C5, evaluated on the code as the repository builds it (one loop variable per
  \<open>range\<close> loop). \<open>/docs\<close> lists the file \<open>a.txt\<close> and then the directory \<open>sub\<close>. \<open>Readdir\<close>
  reports \<open>a.txt\<close> as a regular file, and the \<open>Lookup\<close> of \<open>a.txt\<close> right afterwards
  succeeds from the rebuilt cache but returns a node of kind directory: every child
  built by the loop holds \<open>&file\<close>, which after the loop is the entry of \<open>sub\<close>.
\<close>

theorem Readdir_children_share_last_FileInfo:
  "\<not> loopvar_per_iteration ex_mixed \<and>
   fst (Readdir ex_mixed 1) =
     Inr [\<lparr>entry_Name = ''a.txt'', entry_Mode = S_IFREG\<rparr>,
          \<lparr>entry_Name = ''sub'', entry_Mode = S_IFDIR\<rparr>] \<and>
   map_sum id stable_Mode (fst (Lookup (snd (Readdir ex_mixed 1)) 1 ''a.txt'' attr0)) =
     Inr S_IFDIR \<and>
   S_IFDIR \<noteq> S_IFREG"
  by (simp add: ex_mixed_def ex_defs eval_defs node_eval_defs S_IFDIR_def S_IFREG_def)

text \<open>With a fresh loop variable in every iteration the same run returns the kind that
  \<open>Readdir\<close> reported.\<close>

lemma Readdir_fresh_loop_variable_keeps_kinds:
  "map_sum id stable_Mode
     (fst (Lookup (snd (Readdir (ex_mixed\<lparr>loopvar_per_iteration := True\<rparr>) 1)) 1 ''a.txt'' attr0)) =
     Inr S_IFREG"
  by (simp add: ex_mixed_def ex_defs eval_defs node_eval_defs S_IFDIR_def S_IFREG_def)

end
